theory Spec2Isabelle
  imports Main "HOL-Library.Sublist"
begin

section \<open>Strings\<close>

text \<open>
  Python strings are modelled as \<^typ>\<open>string\<close>, one \<^typ>\<open>char\<close> per code unit.
  \<open>str.upper\<close> and \<open>str.lower\<close> act on the ASCII letters, \<open>str.strip\<close> removes the
  characters for which \<open>str.isspace\<close> holds in the 8-bit range, and \<open>a in b\<close> on strings
  is the contiguous-sublist test \<^const>\<open>sublist\<close>.
\<close>

definition upper_char :: "char \<Rightarrow> char" where
  "upper_char c =
     (let n = (of_char c :: nat) in if 97 \<le> n \<and> n \<le> 122 then char_of (n - 32) else c)"

definition lower_char :: "char \<Rightarrow> char" where
  "lower_char c =
     (let n = (of_char c :: nat) in if 65 \<le> n \<and> n \<le> 90 then char_of (n + 32) else c)"

definition upper :: "string \<Rightarrow> string" where
  "upper s = map upper_char s"

definition lower :: "string \<Rightarrow> string" where
  "lower s = map lower_char s"

definition isspace :: "char \<Rightarrow> bool" where
  "isspace c = ((of_char c :: nat) \<in> {9, 10, 11, 12, 13, 28, 29, 30, 31, 32, 133, 160})"

definition strip :: "string \<Rightarrow> string" where
  "strip s = rev (dropWhile isspace (rev (dropWhile isspace s)))"

section \<open>BLE devices and the scan-result list\<close>

text \<open>
  A scanned device as the GUI reads it: \<open>device.name\<close> (which may be \<open>None\<close>) and
  \<open>device.address\<close>.
\<close>

record device =
  name :: "string option"
  address :: string

text \<open>\<open>device.name or "Unknown"\<close>: \<open>None\<close> and the empty string are both falsy.\<close>

definition name_or_unknown :: "device \<Rightarrow> string" where
  "name_or_unknown d =
     (case name d of None \<Rightarrow> ''Unknown'' | Some n \<Rightarrow> if n = [] then ''Unknown'' else n)"

text \<open>\<open>display_text = f"{name} ({address})"\<close>.\<close>

definition display_text :: "device \<Rightarrow> string" where
  "display_text d = name_or_unknown d @ '' ('' @ address d @ '')''"

text \<open>\<open>"XIAO" in name.upper() or "ESP32" in name.upper()\<close>.\<close>

definition is_esp32_name :: "string \<Rightarrow> bool" where
  "is_esp32_name n = (sublist ''XIAO'' (upper n) \<or> sublist ''ESP32'' (upper n))"

text \<open>
  The first loop of \<open>_update_device_list\<close>: every device is appended, with its display
  text, to \<open>esp32_devices\<close> or to \<open>other_devices\<close>.
\<close>

fun classify_devices ::
  "device list \<Rightarrow> (device \<times> string) list \<Rightarrow> (device \<times> string) list \<Rightarrow>
   (device \<times> string) list \<times> (device \<times> string) list" where
  "classify_devices [] esp32_devices other_devices = (esp32_devices, other_devices)"
| "classify_devices (d # ds) esp32_devices other_devices =
     (if is_esp32_name (name_or_unknown d)
      then classify_devices ds (esp32_devices @ [(d, display_text d)]) other_devices
      else classify_devices ds esp32_devices (other_devices @ [(d, display_text d)]))"

text \<open>
  The two row prefixes are the byte sequences of the source's string literals (each ends
  with a space); the separator row is plain text.
\<close>

definition esp32_marker :: string where
  "esp32_marker = map char_of [0xEF, 0xA3, 0xBF, 0xC3, 0xBC, 0xC3, 0xA9, 0xC3, 0x98, 0x20 :: nat]"

definition other_marker :: string where
  "other_marker = map char_of [0xEF, 0xA3, 0xBF, 0xC3, 0xBC, 0xC3, 0xAC, 0xC2, 0xB1, 0x20 :: nat]"

definition separator_row :: string where
  "separator_row = ''--- Other Devices ---''"

text \<open>
  The listbox together with the index map and the running \<open>listbox_index\<close>. Each of the
  two insertion loops appends one row per device and maps the current index to it.
\<close>

type_synonym listing = "string list \<times> (nat \<rightharpoonup> device) \<times> nat"

fun insert_rows :: "string \<Rightarrow> (device \<times> string) list \<Rightarrow> listing \<Rightarrow> listing" where
  "insert_rows marker [] l = l"
| "insert_rows marker ((d, txt) # rest) (rows, index_map, listbox_index) =
     insert_rows marker rest
       (rows @ [marker @ txt], index_map(listbox_index \<mapsto> d), listbox_index + 1)"

definition insert_separator ::
  "(device \<times> string) list \<Rightarrow> (device \<times> string) list \<Rightarrow> listing \<Rightarrow> listing" where
  "insert_separator esp32_devices other_devices l =
     (case l of (rows, index_map, listbox_index) \<Rightarrow>
        if esp32_devices \<noteq> [] \<and> other_devices \<noteq> []
        then (rows @ [separator_row], index_map, listbox_index + 1)
        else l)"

definition build_listing :: "device list \<Rightarrow> listing" where
  "build_listing devices =
     (case classify_devices devices [] [] of (esp32_devices, other_devices) \<Rightarrow>
        insert_rows other_marker other_devices
          (insert_separator esp32_devices other_devices
             (insert_rows esp32_marker esp32_devices ([], Map.empty, 0))))"

section \<open>Exceptions, library objects and effects\<close>

text \<open>
  Every library call that can raise is a branch of the model. An exception carries the
  text \<open>str(e)\<close> that the handlers format into their messages; the timeout raised by
  \<open>future.result(timeout=...)\<close> has an empty text.
\<close>

datatype exn = TimeoutError | RuntimeError string | Error string

fun str_exn :: "exn \<Rightarrow> string" where
  "str_exn TimeoutError = []"
| "str_exn (RuntimeError m) = m"
| "str_exn (Error m) = m"

datatype characteristic = Characteristic (char_uuid: string)

datatype service = Service (service_uuid: string) (characteristics: "characteristic list")

record inspect_info =
  services_info :: "service list"
  target_service_found :: bool
  target_char_found :: bool

text \<open>The coroutines handed to an event loop, and the targets of the threads started.\<close>

datatype coroutine =
    ScanBle
  | InspectBle device
  | ConnectBle device
  | SendBle string
  | ClientDisconnect

datatype thread_target =
    RunLoop
  | ReadSerialMessages
  | ScanBleAsync
  | InspectBleAsync device
  | ConnectBleAsync device
  | DisconnectBleAsync
  | SendBleAsync string

text \<open>
  The callables given to \<open>root.after(0, ...)\<close>: each stands for the GUI method the lambda
  calls, with the arguments as they are when the callback is scheduled.
\<close>

datatype callback =
    CbUpdateStatus string
  | CbAddSerialMessage string string
  | CbAddBleMessage string string
  | CbUpdateDeviceList "device list"
  | CbShowDeviceInfo device inspect_info
  | CbShowError string string
  | CbBleConnected device
  | CbBleDisconnected

text \<open>
  What a procedure does beyond changing the attributes of the application object:
  message boxes and windows, scheduling on the GUI event queue, threads, event loops and
  the calls into the serial, BLE and file libraries. A library call is recorded when it
  is made, whether it then returns or raises.
\<close>

datatype effect =
    ShowError string string
  | ShowWarning string string
  | ShowInfo string string
  | InfoWindow device inspect_info
  | After callback
  | StartThread thread_target
  | RunCoroutineThreadsafe coroutine
  | FutureResult nat
  | NewEventLoop
  | RunUntilComplete coroutine
  | LoopClose
  | LoopStop
  | ExecutorShutdown
  | Print string
  | SerialOpen string int
  | SerialWrite string
  | SerialClose
  | FileWrite string string
  | BleClientConnect string
  | BleClientDisconnect
  | BleStartNotify string
  | BleWriteGattChar string string
  | Sleep
  | RootDestroy

section \<open>The asyncio bridge\<close>

datatype event_loop = EventLoop (is_closed: bool)

record asyncio_manager =
  loop :: "event_loop option"

text \<open>
  \<open>AsyncioManager.__init__\<close> with \<open>_start_event_loop\<close>: one daemon thread is started, it
  creates the loop and runs it forever; the constructor returns once \<open>self.loop\<close> is set.
\<close>

definition start_event_loop :: "asyncio_manager \<times> effect list" where
  "start_event_loop = (\<lparr>loop = Some (EventLoop False)\<rparr>, [StartThread RunLoop])"

text \<open>
  \<open>run_async\<close>: submits the coroutine to the manager's loop, or raises when there is no
  open loop.
\<close>

definition run_async :: "asyncio_manager \<Rightarrow> coroutine \<Rightarrow> exn + effect list" where
  "run_async m coro =
     (case loop m of
        Some l \<Rightarrow>
          if \<not> is_closed l then Inr [RunCoroutineThreadsafe coro]
          else Inl (RuntimeError ''Event loop is not running'')
      | None \<Rightarrow> Inl (RuntimeError ''Event loop is not running''))"

definition shutdown :: "asyncio_manager \<Rightarrow> effect list" where
  "shutdown m =
     (case loop m of
        Some l \<Rightarrow> if \<not> is_closed l then [LoopStop, ExecutorShutdown] else []
      | None \<Rightarrow> [])"

section \<open>The state of the application object\<close>

text \<open>
  The attributes of \<open>ESP32S3_GUI\<close> and the contents of its widgets. A text widget is its
  text, a listbox its rows, a Tk variable its contents, a button its label.
  \<open>device_index_map\<close> and \<open>ble_devices\<close> do not exist before the first scan result.
\<close>

record gui =
  BLEAK_AVAILABLE :: bool
  serial_connection :: "(string \<times> int) option"
  ble_client :: "string option"
  is_connected_serial :: bool
  is_connected_ble :: bool
  message_count :: nat
  stop_threads :: bool
  asyncio_manager :: "asyncio_manager option"
  device_index_map :: "(nat \<rightharpoonup> device) option"
  ble_devices :: "device list option"
  serial_port_var :: string
  serial_port_combo :: "string list"
  baud_var :: string
  serial_connect_btn :: string
  serial_messages :: string
  serial_command_var :: string
  device_listbox :: "string list"
  ble_connect_btn :: string
  ble_status_var :: string
  ble_messages :: string
  ble_command_var :: string
  auto_scroll_var :: bool
  timestamp_var :: bool
  status_var :: string
  connection_status_var :: string

definition SERVICE_UUID :: string where
  "SERVICE_UUID = ''12345678-1234-1234-1234-123456789abc''"

definition CHARACTERISTIC_UUID :: string where
  "CHARACTERISTIC_UUID = ''87654321-4321-4321-4321-cba987654321''"

definition newline :: string where
  "newline = [CHR 0x0A]"

text \<open>The contents of the widgets: what the user sees.\<close>

definition widgets ::
  "gui \<Rightarrow> (string \<times> string list \<times> string \<times> string \<times> string \<times> string) \<times>
          (string list \<times> string \<times> string \<times> string \<times> string) \<times>
          (bool \<times> bool \<times> string \<times> string)" where
  "widgets s =
     ((serial_port_var s, serial_port_combo s, baud_var s, serial_connect_btn s,
       serial_messages s, serial_command_var s),
      (device_listbox s, ble_connect_btn s, ble_status_var s, ble_messages s,
       ble_command_var s),
      (auto_scroll_var s, timestamp_var s, status_var s, connection_status_var s))"

section \<open>Status bar and message logs\<close>

text \<open>
  Methods whose Python name starts with an underscore keep the name without it; where
  that name is taken by the public method, the coroutine carries the suffix \<open>_coro\<close>.
  A procedure takes the state and returns the new state with the effects it performed, in
  order. The clock reading \<open>datetime.now().strftime(...)\<close> and the outcome of each library
  call are arguments.
\<close>

definition update_status :: "gui \<Rightarrow> string \<Rightarrow> gui" where
  "update_status s message = s\<lparr>status_var := message\<rparr>"

definition sent_prefix :: string where
  "sent_prefix = map char_of [0xE2, 0x80, 0x9A, 0xC3, 0x9C, 0xC3, 0xAD, 0x20 :: nat]"

definition received_prefix :: string where
  "received_prefix = map char_of [0xE2, 0x80, 0x9A, 0xC3, 0x9C, 0xC3, 0xAA, 0x20 :: nat]"

definition system_prefix :: string where
  "system_prefix = map char_of [0xE2, 0x80, 0x9A, 0xC3, 0xB3, 0xC3, 0xA8, 0x20 :: nat]"

definition message_prefix :: "string \<Rightarrow> string" where
  "message_prefix msg_type =
     (if msg_type = ''sent'' then sent_prefix
      else if msg_type = ''received'' then received_prefix
      else system_prefix)"

definition full_message :: "gui \<Rightarrow> string \<Rightarrow> string \<Rightarrow> string \<Rightarrow> string" where
  "full_message s now message msg_type =
     (let timestamp = (if timestamp_var s then now else [])
      in if timestamp \<noteq> []
         then timestamp @ '' '' @ message_prefix msg_type @ message @ newline
         else message_prefix msg_type @ message @ newline)"

definition add_serial_message :: "gui \<Rightarrow> string \<Rightarrow> string \<Rightarrow> string \<Rightarrow> gui" where
  "add_serial_message s now message msg_type =
     s\<lparr>serial_messages := serial_messages s @ full_message s now message msg_type,
       message_count := message_count s + 1\<rparr>"

definition add_ble_message :: "gui \<Rightarrow> string \<Rightarrow> string \<Rightarrow> string \<Rightarrow> gui" where
  "add_ble_message s now message msg_type =
     s\<lparr>ble_messages := ble_messages s @ full_message s now message msg_type,
       message_count := message_count s + 1\<rparr>"

fun join :: "string \<Rightarrow> string list \<Rightarrow> string" where
  "join sep [] = []"
| "join sep [x] = x"
| "join sep (x # y # ys) = x @ sep @ join sep (y # ys)"

definition update_connection_status :: "gui \<Rightarrow> gui" where
  "update_connection_status s =
     (let status_parts =
            (if is_connected_serial s then [''Serial''] else []) @
            (if is_connected_ble s then [''BLE''] else [])
      in if status_parts \<noteq> []
         then s\<lparr>connection_status_var := ''Connected: '' @ join '', '' status_parts\<rparr>
         else s\<lparr>connection_status_var := ''Disconnected''\<rparr>)"

text \<open>Decimal rendering of numbers in f-strings.\<close>

fun str_nat :: "nat \<Rightarrow> string" where
  "str_nat n =
     (if n < 10 then [char_of (48 + n)] else str_nat (n div 10) @ [char_of (48 + n mod 10)])"

definition str_int :: "int \<Rightarrow> string" where
  "str_int i = (if i < 0 then ''-'' @ str_nat (nat (- i)) else str_nat (nat i))"

section \<open>USB serial\<close>

definition refresh_serial_ports :: "gui \<Rightarrow> string list \<Rightarrow> gui" where
  "refresh_serial_ports s ports =
     (let s1 = s\<lparr>serial_port_combo := ports\<rparr>;
          s2 = (case ports of
                  [] \<Rightarrow> s1
                | p # _ \<Rightarrow> if serial_port_var s1 \<notin> set ports then s1\<lparr>serial_port_var := p\<rparr> else s1)
      in update_status s2 (''Found '' @ str_nat (length ports) @ '' serial port(s)''))"

text \<open>
  \<open>connect_serial\<close>. \<open>baud_result\<close> is the outcome of \<open>int(self.baud_var.get())\<close> and
  \<open>open_result\<close> that of \<open>serial.Serial(port, baud, timeout=1)\<close> (\<open>None\<close>: no exception).
\<close>

definition connect_serial ::
  "gui \<Rightarrow> string \<Rightarrow> exn + int \<Rightarrow> exn option \<Rightarrow> gui \<times> effect list" where
  "connect_serial s now baud_result open_result =
     (let port = serial_port_var s;
          failed = (\<lambda>e made.
            (update_status s ''Connection failed'',
             made @ [ShowError ''Connection Error''
                       (''Failed to connect to '' @ port @ '':'' @ newline @ str_exn e)]))
      in case baud_result of
           Inl e \<Rightarrow> failed e []
         | Inr baud \<Rightarrow>
             (case open_result of
                Some e \<Rightarrow> failed e [SerialOpen port baud]
              | None \<Rightarrow>
                  (let s1 = s\<lparr>serial_connection := Some (port, baud),
                              is_connected_serial := True,
                              stop_threads := False\<rparr>;
                       s2 = s1\<lparr>serial_connect_btn := ''Disconnect''\<rparr>;
                       text = ''Connected to '' @ port @ '' at '' @ str_int baud @ '' baud'';
                       s3 = update_status s2 text;
                       s4 = add_serial_message s3 now (''[GUI] '' @ text) ''system''
                   in (update_connection_status s4,
                       [SerialOpen port baud, StartThread ReadSerialMessages]))))"

definition disconnect_serial :: "gui \<Rightarrow> string \<Rightarrow> gui \<times> effect list" where
  "disconnect_serial s now =
     (let s1 = s\<lparr>stop_threads := True\<rparr>;
          closing = (if serial_connection s1 \<noteq> None then [SerialClose] else []);
          s2 = s1\<lparr>serial_connection := None, is_connected_serial := False\<rparr>;
          s3 = s2\<lparr>serial_connect_btn := ''Connect''\<rparr>;
          s4 = update_status s3 ''Disconnected from serial'';
          s5 = add_serial_message s4 now ''[GUI] Disconnected from serial'' ''system''
      in (update_connection_status s5, closing))"

definition toggle_serial_connection ::
  "gui \<Rightarrow> string \<Rightarrow> exn + int \<Rightarrow> exn option \<Rightarrow> gui \<times> effect list" where
  "toggle_serial_connection s now baud_result open_result =
     (if \<not> is_connected_serial s then connect_serial s now baud_result open_result
      else disconnect_serial s now)"

text \<open>
  \<open>read_serial_messages\<close>, the body of the reader thread. Each element of the argument is
  what one pass of the loop observes: the two flags of the loop condition, and the poll
  of the port (nothing waiting, a decoded line, or an exception). The result is what the
  thread has done by the end of these passes.
\<close>

datatype serial_poll = NothingWaiting | Line string | ReadFailed exn

fun read_serial_messages :: "(bool \<times> bool \<times> serial_poll) list \<Rightarrow> effect list" where
  "read_serial_messages [] = []"
| "read_serial_messages ((stop_threads_seen, is_connected_seen, poll) # later) =
     (if \<not> stop_threads_seen \<and> is_connected_seen then
        (case poll of
           ReadFailed e \<Rightarrow> [After (CbUpdateStatus (''Serial read error: '' @ str_exn e))]
         | NothingWaiting \<Rightarrow> Sleep # read_serial_messages later
         | Line raw \<Rightarrow>
             (let message = strip raw
              in (if message \<noteq> [] then [After (CbAddSerialMessage message ''received'')] else [])
                 @ Sleep # read_serial_messages later))
      else [])"

text \<open>
  \<open>send_serial_command_direct\<close> and \<open>send_serial_command\<close>. \<open>write_result\<close> is the outcome of
  \<open>self.serial_connection.write(...)\<close>.
\<close>

definition send_serial_command_direct ::
  "gui \<Rightarrow> string \<Rightarrow> string \<Rightarrow> exn option \<Rightarrow> gui \<times> effect list" where
  "send_serial_command_direct s now command write_result =
     (if \<not> is_connected_serial s
      then (s, [ShowWarning ''Not Connected'' ''Please connect to serial port first''])
      else
        (case write_result of
           None \<Rightarrow>
             (add_serial_message s now (''[GUI] Sent: '' @ command) ''sent'',
              [SerialWrite (command @ newline)])
         | Some e \<Rightarrow>
             (s, [SerialWrite (command @ newline),
                  ShowError ''Send Error''
                    (''Failed to send command:'' @ newline @ str_exn e)])))"

definition send_serial_command :: "gui \<Rightarrow> string \<Rightarrow> exn option \<Rightarrow> gui \<times> effect list" where
  "send_serial_command s now write_result =
     (let command = strip (serial_command_var s)
      in if command \<noteq> []
         then (case send_serial_command_direct s now command write_result of
                 (s1, effects) \<Rightarrow> (s1\<lparr>serial_command_var := []\<rparr>, effects))
         else (s, []))"

section \<open>BLE: scanning and inspecting\<close>

definition scan_ble_devices :: "gui \<Rightarrow> gui \<times> effect list" where
  "scan_ble_devices s =
     (if \<not> BLEAK_AVAILABLE s
      then (s, [ShowWarning ''BLE Unavailable''
                  (''BLE functionality requires the '' @ [CHR 0x27] @ ''bleak'' @ [CHR 0x27]
                   @ '' package.'' @ newline @ ''Install with: pip install bleak'')])
      else (update_status (s\<lparr>device_listbox := [''Scanning...'']\<rparr>)
              ''Scanning for BLE devices...'',
            [StartThread ScanBleAsync]))"

text \<open>
  The worker threads. Each one submits a coroutine and waits for its future;
  \<open>future_result\<close> is what \<open>future.result(timeout=...)\<close> gives: the value, or the exception
  raised (by the coroutine, or \<^const>\<open>TimeoutError\<close>).
\<close>

definition scan_ble_async :: "gui \<Rightarrow> exn + device list \<Rightarrow> gui \<times> effect list" where
  "scan_ble_async s future_result =
     (case asyncio_manager s of
        None \<Rightarrow> (s, [After (CbUpdateStatus ''BLE manager not available'')])
      | Some m \<Rightarrow>
          (let failed = (\<lambda>e. After (CbUpdateStatus (''BLE scan error: '' @ str_exn e)))
           in case run_async m ScanBle of
                Inl e \<Rightarrow> (s, [failed e])
              | Inr submitted \<Rightarrow>
                  (case future_result of
                     Inl e \<Rightarrow> (s, submitted @ [FutureResult 10, failed e])
                   | Inr devices \<Rightarrow>
                       (s, submitted @ [FutureResult 10, After (CbUpdateDeviceList devices)]))))"

definition update_device_list :: "gui \<Rightarrow> device list \<Rightarrow> gui" where
  "update_device_list s devices =
     (case build_listing devices of (rows, index_map, listbox_index) \<Rightarrow>
        update_status
          (s\<lparr>device_listbox := rows,
             device_index_map := Some index_map,
             ble_devices := Some devices\<rparr>)
          (''Found '' @ str_nat (length devices) @ '' BLE device(s)''))"

text \<open>
  The selection of the listbox is the tuple \<open>curselection()\<close>. \<open>selected_device\<close> is the
  check shared, line for line, by \<open>inspect_ble_device\<close> and \<open>connect_ble\<close>.
\<close>

definition selected_device :: "gui \<Rightarrow> nat list \<Rightarrow> effect + device" where
  "selected_device s selection =
     (case selection of
        [] \<Rightarrow> Inl (ShowWarning ''No Selection'' ''Please select a BLE device first'')
      | listbox_index # _ \<Rightarrow>
          (case device_index_map s of
             None \<Rightarrow> Inl (ShowWarning ''Invalid Selection''
                            ''Please select a valid BLE device (not a separator)'')
           | Some index_map \<Rightarrow>
               (case index_map listbox_index of
                  None \<Rightarrow> Inl (ShowWarning ''Invalid Selection''
                                 ''Please select a valid BLE device (not a separator)'')
                | Some d \<Rightarrow> Inr d)))"

definition inspect_ble_device :: "gui \<Rightarrow> nat list \<Rightarrow> gui \<times> effect list" where
  "inspect_ble_device s selection =
     (case selected_device s selection of
        Inl warning \<Rightarrow> (s, [warning])
      | Inr d \<Rightarrow> (s, [StartThread (InspectBleAsync d)]))"

definition inspect_ble_async ::
  "gui \<Rightarrow> device \<Rightarrow> exn + inspect_info \<Rightarrow> gui \<times> effect list" where
  "inspect_ble_async s d future_result =
     (case asyncio_manager s of
        None \<Rightarrow> (s, [After (CbUpdateStatus ''BLE manager not available'')])
      | Some m \<Rightarrow>
          (let failed = (\<lambda>e. After (CbShowError ''Inspection Error''
                                  (''Failed to inspect device:'' @ newline @ str_exn e)))
           in case run_async m (InspectBle d) of
                Inl e \<Rightarrow> (s, [failed e])
              | Inr submitted \<Rightarrow>
                  (case future_result of
                     Inl e \<Rightarrow> (s, submitted @ [FutureResult 10, failed e])
                   | Inr info \<Rightarrow>
                       (s, submitted @ [FutureResult 10, After (CbShowDeviceInfo d info)]))))"

section \<open>BLE: connecting\<close>

definition connect_ble :: "gui \<Rightarrow> nat list \<Rightarrow> gui \<times> effect list" where
  "connect_ble s selection =
     (case selected_device s selection of
        Inl warning \<Rightarrow> (s, [warning])
      | Inr d \<Rightarrow> (s, [StartThread (ConnectBleAsync d)]))"

definition connect_ble_async :: "gui \<Rightarrow> device \<Rightarrow> exn option \<Rightarrow> gui \<times> effect list" where
  "connect_ble_async s d future_result =
     (case asyncio_manager s of
        None \<Rightarrow> (s, [After (CbUpdateStatus ''BLE manager not available'')])
      | Some m \<Rightarrow>
          (let failed = (\<lambda>e. After (CbUpdateStatus (''BLE connection error: '' @ str_exn e)))
           in case run_async m (ConnectBle d) of
                Inl e \<Rightarrow> (s, [failed e])
              | Inr submitted \<Rightarrow>
                  (case future_result of
                     Some e \<Rightarrow> (s, submitted @ [FutureResult 10, failed e])
                   | None \<Rightarrow> (s, submitted @ [FutureResult 10]))))"

text \<open>
  The search of \<open>_connect_ble\<close> for the target: the first service with the target UUID
  ends the outer loop, and only its characteristics are searched.
\<close>

definition uuid_matches :: "string \<Rightarrow> string \<Rightarrow> bool" where
  "uuid_matches u target = (lower u = lower target)"

fun find_characteristic :: "characteristic list \<Rightarrow> bool" where
  "find_characteristic [] = False"
| "find_characteristic (c # cs) =
     (if uuid_matches (char_uuid c) CHARACTERISTIC_UUID then True else find_characteristic cs)"

fun find_service :: "service list \<Rightarrow> bool \<times> bool" where
  "find_service [] = (False, False)"
| "find_service (sv # svs) =
     (if uuid_matches (service_uuid sv) SERVICE_UUID
      then (True, find_characteristic (characteristics sv))
      else find_service svs)"

text \<open>\<open>f"{device.name}"\<close>: a missing name is rendered as \<open>None\<close>.\<close>

definition name_text :: "device \<Rightarrow> string" where
  "name_text d = (case name d of None \<Rightarrow> ''None'' | Some n \<Rightarrow> n)"

definition quoted :: "string \<Rightarrow> string" where
  "quoted t = [CHR 0x27] @ t @ [CHR 0x27]"

definition service_missing_text :: "device \<Rightarrow> string" where
  "service_missing_text d =
     ''Device '' @ quoted (name_text d) @ '' does not have the required service.''
     @ newline @ newline @ ''Expected Service UUID: '' @ SERVICE_UUID @ newline @ newline
     @ ''This device may not be your XIAO ESP32S3. Please select the correct device.''"

definition characteristic_missing_text :: "device \<Rightarrow> string" where
  "characteristic_missing_text d =
     ''Device '' @ quoted (name_text d) @ '' does not have the required characteristic.''
     @ newline @ newline @ ''Expected Characteristic UUID: '' @ CHARACTERISTIC_UUID
     @ newline @ newline @ ''Make sure your ESP32S3 is running the correct firmware.''"

text \<open>
  The outcomes of the library calls of \<open>_connect_ble\<close>, in the order of the calls:
  constructing the client, \<open>connect()\<close>, the services read, \<open>disconnect()\<close> in the two
  not-found branches, and \<open>start_notify(...)\<close>. The \<open>disconnect()\<close> of the exception
  handler needs no outcome: what it raises is discarded.
\<close>

record connect_env =
  client_result :: "exn option"
  connect_result :: "exn option"
  services :: "service list"
  disconnect_result :: "exn option"
  start_notify_result :: "exn option"

text \<open>The \<open>except Exception as e\<close> block of \<open>_connect_ble\<close>.\<close>

definition connect_failed :: "gui \<Rightarrow> device \<Rightarrow> exn \<Rightarrow> effect list" where
  "connect_failed s d e =
     (if ble_client s \<noteq> None then [BleClientDisconnect] else []) @
     [After (CbShowError ''BLE Error''
        (''Failed to connect to '' @ quoted (name_text d) @ '':'' @ newline @ str_exn e))]"

definition connect_ble_coro :: "gui \<Rightarrow> device \<Rightarrow> connect_env \<Rightarrow> gui \<times> effect list" where
  "connect_ble_coro s d env =
     (case client_result env of
        Some e \<Rightarrow> (s, connect_failed s d e)
      | None \<Rightarrow>
          (let s1 = s\<lparr>ble_client := Some (address d)\<rparr>;
               connected = [BleClientConnect (address d)]
           in case connect_result env of
                Some e \<Rightarrow> (s1, connected @ connect_failed s1 d e)
              | None \<Rightarrow>
                  (case find_service (services env) of
                     (service_found, characteristic_found) \<Rightarrow>
                       if \<not> service_found then
                         (case disconnect_result env of
                            Some e \<Rightarrow>
                              (s1, connected @ [BleClientDisconnect] @ connect_failed s1 d e)
                          | None \<Rightarrow>
                              (s1, connected @ [BleClientDisconnect,
                                     After (CbShowError ''BLE Error'' (service_missing_text d))]))
                       else if \<not> characteristic_found then
                         (case disconnect_result env of
                            Some e \<Rightarrow>
                              (s1, connected @ [BleClientDisconnect] @ connect_failed s1 d e)
                          | None \<Rightarrow>
                              (s1, connected @ [BleClientDisconnect,
                                     After (CbShowError ''BLE Error''
                                              (characteristic_missing_text d))]))
                       else
                         (case start_notify_result env of
                            Some e \<Rightarrow>
                              (s1, connected @ [BleStartNotify CHARACTERISTIC_UUID]
                                   @ connect_failed s1 d e)
                          | None \<Rightarrow>
                              (s1\<lparr>is_connected_ble := True\<rparr>,
                               connected @ [BleStartNotify CHARACTERISTIC_UUID,
                                            After (CbBleConnected d)])))))"

definition ble_connected :: "gui \<Rightarrow> string \<Rightarrow> device \<Rightarrow> gui" where
  "ble_connected s now d =
     (let s1 = s\<lparr>ble_connect_btn := ''Disconnect''\<rparr>;
          s2 = s1\<lparr>ble_status_var := ''Connected to '' @ name_text d\<rparr>;
          s3 = update_status s2 (''Connected to BLE device: '' @ name_text d);
          s4 = add_ble_message s3 now
                 (''[GUI] Connected to '' @ name_text d @ '' ('' @ address d @ '')'') ''system''
      in update_connection_status s4)"

section \<open>BLE: disconnecting, notifications, sending\<close>

definition disconnect_ble :: "gui \<Rightarrow> gui \<times> effect list" where
  "disconnect_ble s =
     (if ble_client s \<noteq> None then (s, [StartThread DisconnectBleAsync]) else (s, []))"

definition toggle_ble_connection :: "gui \<Rightarrow> nat list \<Rightarrow> gui \<times> effect list" where
  "toggle_ble_connection s selection =
     (if \<not> is_connected_ble s then connect_ble s selection else disconnect_ble s)"

text \<open>
  \<open>_disconnect_ble_async\<close>: the thread makes an event loop of its own and runs the
  client's \<open>disconnect()\<close> on it. \<open>disconnect_result\<close> is the outcome of that call.
\<close>

definition disconnect_ble_async :: "gui \<Rightarrow> exn option \<Rightarrow> gui \<times> effect list" where
  "disconnect_ble_async s disconnect_outcome =
     (s, [NewEventLoop] @
         (if ble_client s \<noteq> None
          then RunUntilComplete ClientDisconnect #
               (case disconnect_outcome of
                  Some e \<Rightarrow> [Print (''BLE disconnect error: '' @ str_exn e)]
                | None \<Rightarrow> [])
          else []) @
         [LoopClose, After CbBleDisconnected])"

definition ble_disconnected :: "gui \<Rightarrow> string \<Rightarrow> gui" where
  "ble_disconnected s now =
     (let s1 = s\<lparr>ble_client := None, is_connected_ble := False\<rparr>;
          s2 = s1\<lparr>ble_connect_btn := ''Connect''\<rparr>;
          s3 = s2\<lparr>ble_status_var := ''Not connected''\<rparr>;
          s4 = update_status s3 ''Disconnected from BLE'';
          s5 = add_ble_message s4 now ''[GUI] Disconnected from BLE'' ''system''
      in update_connection_status s5)"

text \<open>
  \<open>_ble_notification_handler\<close>. \<open>decoded\<close> is the outcome of
  \<open>data.decode('utf-8', errors='ignore')\<close>.
\<close>

definition ble_notification_handler :: "gui \<Rightarrow> exn + string \<Rightarrow> gui \<times> effect list" where
  "ble_notification_handler s decoded =
     (case decoded of
        Inr text \<Rightarrow> (s, [After (CbAddBleMessage (''[BLE] '' @ strip text) ''received'')])
      | Inl e \<Rightarrow> (s, [Print (''BLE notification error: '' @ str_exn e)]))"

definition send_ble_message :: "gui \<Rightarrow> gui \<times> effect list" where
  "send_ble_message s =
     (if \<not> is_connected_ble s
      then (s, [ShowWarning ''Not Connected'' ''Please connect to BLE device first''])
      else
        (let message = strip (ble_command_var s)
         in if message \<noteq> []
            then (s\<lparr>ble_command_var := []\<rparr>, [StartThread (SendBleAsync message)])
            else (s, [])))"

definition send_ble_async :: "gui \<Rightarrow> string \<Rightarrow> exn option \<Rightarrow> gui \<times> effect list" where
  "send_ble_async s message future_result =
     (case asyncio_manager s of
        None \<Rightarrow> (s, [After (CbShowError ''BLE Error'' ''BLE manager not available'')])
      | Some m \<Rightarrow>
          (let failed = (\<lambda>e. After (CbShowError ''BLE Send Error''
                                  (''Failed to send message:'' @ newline @ str_exn e)))
           in case run_async m (SendBle message) of
                Inl e \<Rightarrow> (s, [failed e])
              | Inr submitted \<Rightarrow>
                  (case future_result of
                     Some e \<Rightarrow> (s, submitted @ [FutureResult 5, failed e])
                   | None \<Rightarrow>
                       (s, submitted @ [FutureResult 5,
                              After (CbAddBleMessage (''[GUI] Sent: '' @ message) ''sent'')]))))"

definition send_ble_coro :: "gui \<Rightarrow> string \<Rightarrow> effect list" where
  "send_ble_coro s message =
     (if ble_client s \<noteq> None then [BleWriteGattChar CHARACTERISTIC_UUID message] else [])"

section \<open>Settings tab, callbacks and shutdown\<close>

definition clear_all_messages :: "gui \<Rightarrow> gui" where
  "clear_all_messages s =
     (let s1 = s\<lparr>serial_messages := []\<rparr>;
          s2 = (if BLEAK_AVAILABLE s1 then s1\<lparr>ble_messages := []\<rparr> else s1);
          s3 = s2\<lparr>message_count := 0\<rparr>
      in update_status s3 ''All messages cleared'')"

text \<open>
  \<open>widget.get(1.0, tk.END)\<close>: the text of the widget, with the newline Tk keeps at its end.
\<close>

definition text_get :: "string \<Rightarrow> string" where
  "text_get t = t @ newline"

definition log_file_text :: "gui \<Rightarrow> string \<Rightarrow> string" where
  "log_file_text s generated =
     ''XIAO ESP32S3 Communication Log'' @ newline
     @ ''Generated: '' @ generated @ newline
     @ replicate 50 (CHR ''='') @ newline @ newline
     @ ''USB Serial Messages:'' @ newline
     @ replicate 20 (CHR ''-'') @ newline
     @ text_get (serial_messages s)
     @ (if BLEAK_AVAILABLE s
        then newline @ ''BLE Messages:'' @ newline
             @ replicate 20 (CHR ''-'') @ newline
             @ text_get (ble_messages s)
        else [])"

text \<open>
  \<open>save_messages\<close>. \<open>filename\<close> is what the file dialog returns (empty when the user
  cancels), \<open>generated\<close> the clock reading written into the header, and \<open>write_result\<close>
  the outcome of opening and writing the file.
\<close>

definition save_messages ::
  "gui \<Rightarrow> string \<Rightarrow> string \<Rightarrow> exn option \<Rightarrow> gui \<times> effect list" where
  "save_messages s filename generated write_result =
     (if filename \<noteq> [] then
        (case write_result of
           None \<Rightarrow>
             (update_status s (''Messages saved to '' @ filename),
              [FileWrite filename (log_file_text s generated)])
         | Some e \<Rightarrow>
             (s, [FileWrite filename (log_file_text s generated),
                  ShowError ''Save Error''
                    (''Failed to save messages:'' @ newline @ str_exn e)]))
      else (s, []))"

definition show_device_info :: "gui \<Rightarrow> device \<Rightarrow> inspect_info \<Rightarrow> gui \<times> effect list" where
  "show_device_info s d info = (s, [InfoWindow d info])"

text \<open>What the GUI thread does when it runs a scheduled callback.\<close>

fun run_callback :: "gui \<Rightarrow> string \<Rightarrow> callback \<Rightarrow> gui \<times> effect list" where
  "run_callback s now (CbUpdateStatus message) = (update_status s message, [])"
| "run_callback s now (CbAddSerialMessage message msg_type) =
     (add_serial_message s now message msg_type, [])"
| "run_callback s now (CbAddBleMessage message msg_type) =
     (add_ble_message s now message msg_type, [])"
| "run_callback s now (CbUpdateDeviceList devices) = (update_device_list s devices, [])"
| "run_callback s now (CbShowDeviceInfo d info) = show_device_info s d info"
| "run_callback s now (CbShowError title message) = (s, [ShowError title message])"
| "run_callback s now (CbBleConnected d) = (ble_connected s now d, [])"
| "run_callback s now CbBleDisconnected = (ble_disconnected s now, [])"

definition on_closing :: "gui \<Rightarrow> string \<Rightarrow> gui \<times> effect list" where
  "on_closing s now =
     (let s1 = s\<lparr>stop_threads := True\<rparr>;
          serial_part = (if is_connected_serial s1 then disconnect_serial s1 now else (s1, []));
          s2 = fst serial_part;
          ble_part = (if is_connected_ble s2 then disconnect_ble s2 else (s2, []));
          s3 = fst ble_part;
          manager_part = (case asyncio_manager s3 of Some m \<Rightarrow> shutdown m | None \<Rightarrow> [])
      in (s3, snd serial_part @ snd ble_part @ manager_part @ [Sleep, RootDestroy]))"

text \<open>
  The state after \<open>ESP32S3_GUI.__init__\<close>, for the ports \<open>comports()\<close> lists at start-up.
\<close>

definition initial_gui :: "bool \<Rightarrow> string list \<Rightarrow> gui" where
  "initial_gui bleak ports =
     refresh_serial_ports
       \<lparr>BLEAK_AVAILABLE = bleak,
        serial_connection = None,
        ble_client = None,
        is_connected_serial = False,
        is_connected_ble = False,
        message_count = 0,
        stop_threads = False,
        asyncio_manager = (if bleak then Some (fst start_event_loop) else None),
        device_index_map = None,
        ble_devices = None,
        serial_port_var = ''COM9'',
        serial_port_combo = [],
        baud_var = ''115200'',
        serial_connect_btn = ''Connect'',
        serial_messages = [],
        serial_command_var = [],
        device_listbox = [],
        ble_connect_btn = ''Connect'',
        ble_status_var = ''Not connected'',
        ble_messages = [],
        ble_command_var = [],
        auto_scroll_var = True,
        timestamp_var = True,
        status_var = ''Ready'',
        connection_status_var = ''Disconnected''\<rparr>
       ports"

section \<open>Predicates on effects\<close>

text \<open>An error dialog, shown directly or scheduled on the GUI thread.\<close>

fun is_error_dialog :: "effect \<Rightarrow> bool" where
  "is_error_dialog (ShowError title message) = True"
| "is_error_dialog (After (CbShowError title message)) = True"
| "is_error_dialog e = False"

text \<open>
  What acts on the user interface: message boxes, windows, and the destruction of the
  root window.
\<close>

fun gui_effect :: "effect \<Rightarrow> bool" where
  "gui_effect (ShowError title message) = True"
| "gui_effect (ShowWarning title message) = True"
| "gui_effect (ShowInfo title message) = True"
| "gui_effect (InfoWindow d info) = True"
| "gui_effect RootDestroy = True"
| "gui_effect e = False"

section \<open>Example states\<close>

text \<open>The application connected to a peripheral over BLE, bleak being installed.\<close>

definition ble_connected_state :: gui where
  "ble_connected_state =
     (initial_gui True [])\<lparr>ble_client := Some ''B8:F8:62:FB:87:6D'', is_connected_ble := True\<rparr>"

section \<open>Properties\<close>

lemma ble_connected_state_simps:
  "ble_client ble_connected_state = Some ''B8:F8:62:FB:87:6D''"
  "is_connected_ble ble_connected_state = True"
  "asyncio_manager ble_connected_state = Some \<lparr>loop = Some (EventLoop False)\<rparr>"
  by (simp_all add: ble_connected_state_def initial_gui_def refresh_serial_ports_def
      update_status_def start_event_loop_def)

subsection \<open>The bridge and the operations that use it\<close>

text \<open>
  C1 (the part about which operations go through the bridge). Pressing the button while
  connected over BLE starts the disconnecting thread, and that thread never calls
  \<open>run_async\<close>: it creates an event loop of its own, runs the client's \<open>disconnect()\<close> on
  it, closes it and schedules \<open>_ble_disconnected\<close>. No coroutine is submitted to the
  manager's loop, whatever the outcome of the disconnection.
\<close>

theorem disconnect_bypasses_bridge:
  "toggle_ble_connection ble_connected_state selection
     = (ble_connected_state, [StartThread DisconnectBleAsync])
   \<and> disconnect_ble_async ble_connected_state outcome
     = (ble_connected_state,
        [NewEventLoop, RunUntilComplete ClientDisconnect]
        @ (case outcome of Some e \<Rightarrow> [Print (''BLE disconnect error: '' @ str_exn e)] | None \<Rightarrow> [])
        @ [LoopClose, After CbBleDisconnected])
   \<and> (\<forall>c. RunCoroutineThreadsafe c \<notin> set (snd (disconnect_ble_async ble_connected_state outcome)))"
  by (cases outcome)
     (simp_all add: toggle_ble_connection_def disconnect_ble_def disconnect_ble_async_def
      ble_connected_state_simps)

lemma run_async_open:
  "loop m = Some l \<Longrightarrow> \<not> is_closed l \<Longrightarrow> run_async m coro = Inr [RunCoroutineThreadsafe coro]"
  by (simp add: run_async_def)

text \<open>
  C2, as the claim states it, fails: the timeout is not the same for all cross-thread
  calls. No timeout is used both by the scanning thread and by the sending thread.
\<close>

theorem send_timeout_differs_from_scan_timeout:
  "\<not> (\<exists>t. FutureResult t \<in> set (snd (scan_ble_async ble_connected_state (Inr [])))
          \<and> FutureResult t \<in> set (snd (send_ble_async ble_connected_state ''s'' None)))"
  by (simp add: scan_ble_async_def send_ble_async_def ble_connected_state_simps run_async_def)

text \<open>
  C2, amended. The manager starts one thread that runs the loop, at construction, and the
  application creates the manager once, in \<open>__init__\<close>. With the loop open, each of the
  four threads that use the bridge first submits its coroutine to that loop and then
  blocks on the future with a fixed timeout: 10 seconds for scan, inspect and connect,
  5 seconds for send, whatever the outcome of the wait.
\<close>

theorem bridge_calls_submit_and_wait:
  assumes "asyncio_manager s = Some m" and "loop m = Some l" and "\<not> is_closed l"
  shows "start_event_loop = (\<lparr>loop = Some (EventLoop False)\<rparr>, [StartThread RunLoop])
    \<and> asyncio_manager (initial_gui True ports) = Some (fst start_event_loop)
    \<and> take 2 (snd (scan_ble_async s scanned)) = [RunCoroutineThreadsafe ScanBle, FutureResult 10]
    \<and> take 2 (snd (inspect_ble_async s d inspected))
        = [RunCoroutineThreadsafe (InspectBle d), FutureResult 10]
    \<and> take 2 (snd (connect_ble_async s d connected))
        = [RunCoroutineThreadsafe (ConnectBle d), FutureResult 10]
    \<and> take 2 (snd (send_ble_async s message sent))
        = [RunCoroutineThreadsafe (SendBle message), FutureResult 5]"
proof -
  have r: "\<And>coro. run_async m coro = Inr [RunCoroutineThreadsafe coro]"
    using assms(2,3) by (rule run_async_open)
  have init: "asyncio_manager (initial_gui True ports) = Some (fst start_event_loop)"
    by (simp add: initial_gui_def refresh_serial_ports_def update_status_def Let_def
        split: list.split)
  have scan: "take 2 (snd (scan_ble_async s scanned)) = [RunCoroutineThreadsafe ScanBle, FutureResult 10]"
    by (cases scanned) (simp_all add: scan_ble_async_def assms(1) r)
  have insp: "take 2 (snd (inspect_ble_async s d inspected))
        = [RunCoroutineThreadsafe (InspectBle d), FutureResult 10]"
    by (cases inspected) (simp_all add: inspect_ble_async_def assms(1) r)
  have conn: "take 2 (snd (connect_ble_async s d connected))
        = [RunCoroutineThreadsafe (ConnectBle d), FutureResult 10]"
    by (cases connected) (simp_all add: connect_ble_async_def assms(1) r)
  have send: "take 2 (snd (send_ble_async s message sent))
        = [RunCoroutineThreadsafe (SendBle message), FutureResult 5]"
    by (cases sent) (simp_all add: send_ble_async_def assms(1) r)
  show ?thesis
    using init scan insp conn send by (simp add: start_event_loop_def)
qed

theorem bridge_calls_submit_and_wait_witness:
  "take 2 (snd (scan_ble_async ble_connected_state (Inl TimeoutError)))
     = [RunCoroutineThreadsafe ScanBle, FutureResult 10]
   \<and> take 2 (snd (send_ble_async ble_connected_state ''s'' None))
     = [RunCoroutineThreadsafe (SendBle ''s''), FutureResult 5]"
  using bridge_calls_submit_and_wait
    [of ble_connected_state "\<lparr>loop = Some (EventLoop False)\<rparr>" "EventLoop False"
        "[]" "Inl TimeoutError" "\<lparr>name = None, address = []\<rparr>" "Inl TimeoutError" None "''s''" None]
  by (simp add: ble_connected_state_simps)

end
